theory Spec2Isabelle
  imports Main
begin

section \<open>Python strings\<close>

text \<open>
  A Python \<open>str\<close> is a sequence of code points. The model covers the strings whose code
  points are below 256: a \<^typ>\<open>char\<close> stands for the code point \<open>of_char c\<close>, so
  \<^const>\<open>length\<close> counts code points as \<open>len\<close> does. Every character of a Telegram
  link or username is in that range. \<open>str.lower\<close> and the classes \<open>\w\<close> and \<open>\s\<close> of
  the \<open>re\<close> module (on \<open>str\<close> patterns, without flags) are given on that range.
\<close>

definition ord :: "char \<Rightarrow> nat" where
  "ord c = of_char c"

definition is_upper :: "char \<Rightarrow> bool" where
  "is_upper c =
     ((65 \<le> ord c \<and> ord c \<le> 90) \<or> (192 \<le> ord c \<and> ord c \<le> 214) \<or> (216 \<le> ord c \<and> ord c \<le> 222))"

definition lower_char :: "char \<Rightarrow> char" where
  "lower_char c = (if is_upper c then char_of (ord c + 32) else c)"

text \<open>\<open>s.lower()\<close>\<close>

definition lower :: "string \<Rightarrow> string" where
  "lower s = map lower_char s"

definition is_digit :: "char \<Rightarrow> bool" where
  "is_digit c = (48 \<le> ord c \<and> ord c \<le> 57)"

text \<open>The class \<open>[\w]\<close>: the alphanumeric code points and the underscore.\<close>

definition re_word :: "char \<Rightarrow> bool" where
  "re_word c =
     ((48 \<le> ord c \<and> ord c \<le> 57) \<or> (65 \<le> ord c \<and> ord c \<le> 90) \<or> ord c = 95 \<or>
      (97 \<le> ord c \<and> ord c \<le> 122) \<or> ord c = 170 \<or> ord c = 178 \<or> ord c = 179 \<or>
      ord c = 181 \<or> ord c = 185 \<or> ord c = 186 \<or> (188 \<le> ord c \<and> ord c \<le> 190) \<or>
      (192 \<le> ord c \<and> ord c \<le> 214) \<or> (216 \<le> ord c \<and> ord c \<le> 246) \<or> 248 \<le> ord c)"

text \<open>The class \<open>\s\<close>.\<close>

definition re_space :: "char \<Rightarrow> bool" where
  "re_space c =
     ((9 \<le> ord c \<and> ord c \<le> 13) \<or> (28 \<le> ord c \<and> ord c \<le> 32) \<or> ord c = 133 \<or> ord c = 160)"

text \<open>
  \<open>int(s)\<close> on a string of word characters, the only strings the parser converts: decimal
  digits, single underscores allowed between two digits. \<open>None\<close> stands for
  \<open>ValueError\<close>, the only exception the conversion raises. The first argument is the
  interpreter's limit on the number of digits (\<open>sys.get_int_max_str_digits()\<close>, 4300 by
  default since Python 3.11, 0 for no limit); underscores do not count.
\<close>

fun int_literal :: "string \<Rightarrow> bool" where
  "int_literal [] = False"
| "int_literal [c] = is_digit c"
| "int_literal (c # d # cs) =
     (is_digit c \<and> (if d = CHR ''_'' then int_literal cs else int_literal (d # cs)))"

definition digits_value :: "string \<Rightarrow> int" where
  "digits_value ds = foldl (\<lambda>a c. 10 * a + int (ord c - 48)) 0 ds"

definition py_int :: "nat \<Rightarrow> string \<Rightarrow> int option" where
  "py_int max_str_digits s =
     (let ds = filter is_digit s in
      if \<not> int_literal s then None
      else if 0 < max_str_digits \<and> max_str_digits < length ds then None
      else Some (digits_value ds))"

section \<open>The link pattern\<close>

text \<open>
  \<open>re.match\<close> of
  \<^verbatim>\<open>(?:https?://)?(?:t\.me/|telegram\.(?:org|me|dog)/)(?:c/)?([\w]+)\<close>
  at the start of the string, as a backtracking matcher: each function matches the rest of
  the pattern from one position and returns group 1. \<open>or_else\<close> is the ordered choice of
  the regex engine: the second alternative is tried when the first one, with everything
  after it, fails.
\<close>

fun strip_prefix :: "string \<Rightarrow> string \<Rightarrow> string option" where
  "strip_prefix [] s = Some s"
| "strip_prefix (p # ps) [] = None"
| "strip_prefix (p # ps) (c # cs) = (if p = c then strip_prefix ps cs else None)"

definition or_else :: "'a option \<Rightarrow> 'a option \<Rightarrow> 'a option" where
  "or_else a b = (case a of Some x \<Rightarrow> Some x | None \<Rightarrow> b)"

text \<open>\<open>([\w]+)\<close>: greedy, and nothing follows it, so the longest run of word characters.\<close>

definition re_group1 :: "string \<Rightarrow> string option" where
  "re_group1 s = (case takeWhile re_word s of [] \<Rightarrow> None | c # cs \<Rightarrow> Some (c # cs))"

text \<open>\<open>(?:c/)?([\w]+)\<close>\<close>

definition re_opt_c :: "string \<Rightarrow> string option" where
  "re_opt_c s = or_else (Option.bind (strip_prefix ''c/'' s) re_group1) (re_group1 s)"

text \<open>\<open>(?:t\.me/|telegram\.(?:org|me|dog)/)\<close> and the rest\<close>

definition re_slash :: "string \<Rightarrow> string option" where
  "re_slash s = Option.bind (strip_prefix ''/'' s) re_opt_c"

definition re_host :: "string \<Rightarrow> string option" where
  "re_host s =
     or_else (Option.bind (strip_prefix ''t.me/'' s) re_opt_c)
       (Option.bind (strip_prefix ''telegram.'' s) (\<lambda>r.
          or_else (Option.bind (strip_prefix ''org'' r) re_slash)
            (or_else (Option.bind (strip_prefix ''me'' r) re_slash)
               (Option.bind (strip_prefix ''dog'' r) re_slash))))"

text \<open>\<open>(?:https?://)?\<close> and the rest\<close>

definition re_scheme :: "string \<Rightarrow> string option" where
  "re_scheme s =
     Option.bind (strip_prefix ''http'' s) (\<lambda>r.
       or_else (Option.bind (strip_prefix ''s'' r) (\<lambda>r'. Option.bind (strip_prefix ''://'' r') re_host))
         (Option.bind (strip_prefix ''://'' r) re_host))"

definition re_match_link :: "string \<Rightarrow> string option" where
  "re_match_link s = or_else (re_scheme s) (re_host s)"

text \<open>\<open>re.sub(r"[@+\s]", "", s)\<close>\<close>

definition re_sub_strip :: "string \<Rightarrow> string" where
  "re_sub_strip s = filter (\<lambda>c. \<not> (c = CHR ''@'' \<or> c = CHR ''+'' \<or> re_space c)) s"

section \<open>Data\<close>

text \<open>The identifier: \<open>Union[int, str, None]\<close>.\<close>

datatype peer_id = PNone | PInt int | PStr string

text \<open>The exception classes that occur; \<open>OtherError\<close> is any other class.\<close>

datatype error =
    ConnectionError
  | KeyError
  | AttributeError
  | OperationalError
  | PeerIdInvalid
  | ValueError
  | IndexError
  | TypeError
  | OtherError string

text \<open>The raw types of the protocol that the module builds or inspects.\<close>

datatype input_peer =
    InputPeerSelf
  | InputPeerUser (user_id: int) (access_hash: int)
  | InputPeerChat (chat_id: int)
  | InputPeerChannel (channel_id: int) (access_hash: int)

datatype input_user = InputUser int int

datatype input_channel = InputChannel int int

datatype peer = PeerUser int | PeerChat int | PeerChannel int

text \<open>The users and chats of a server response, handed to the library unread.\<close>

datatype raw_entity = User int int | Chat int | Channel int int

datatype request =
    ResolveUsername string
  | GetUsers "input_user list"
  | GetChats "int list"
  | GetChannels "input_channel list"

text \<open>
  What \<open>client.invoke\<close> returns: a \<open>contacts.ResolvedPeer\<close> (with its \<open>peer\<close>), a list
  of users, a \<open>messages.Chats\<close> (with its \<open>chats\<close>), or an object with none of these.
\<close>

datatype response =
    ResolvedPeer peer
  | Vector "raw_entity list"
  | MessagesChats "raw_entity list"
  | OtherObject

text \<open>A row of \<open>SELECT id, access_hash, type\<close>; a cursor is what \<open>fetchone\<close> gives on it.\<close>

type_synonym row = "int \<times> int \<times> string"

type_synonym cursor = "error + row option"

text \<open>
  The client handle, owned by the wrapped library: each field is the outcome of the
  corresponding call (\<open>Inl\<close> the exception it raises). A missing attribute on the way to
  the call is the \<open>AttributeError\<close> of that call.
\<close>

record client =
  is_connected :: bool
  get_peer_by_username :: "string \<Rightarrow> error + input_peer"
  get_peer_by_id :: "int \<Rightarrow> error + input_peer"
  conn_execute :: "string \<Rightarrow> string list \<Rightarrow> error + cursor"
  invoke :: "request \<Rightarrow> error + response"

text \<open>
  What the module imports and does not define: the functions of \<open>pyrogram.utils\<close> and the
  interpreter's digit limit of \<open>int\<close>. They are parameters of the model.
\<close>

record library =
  int_max_str_digits :: nat
  get_channel_id :: "int \<Rightarrow> int"
  get_peer_type :: "int \<Rightarrow> error + string"
  get_input_peer :: "raw_entity \<Rightarrow> error + input_peer"
  parse_peer_row :: "row \<Rightarrow> error + raw_entity"

text \<open>
  What a run does, in order: the calls into the client, the call of the module's own
  parser, and the log record.
\<close>

datatype event =
    CacheGetByUsername string
  | CacheGetById int
  | SqlExecute string "string list"
  | SqlFetchone
  | LogDebug error
  | ParseInputString string
  | Invoke request

text \<open>A coroutine's outcome: the events so far, and the exception raised or the value returned.\<close>

type_synonym 'a outcome = "event list \<times> (error + 'a)"

definition return :: "'a \<Rightarrow> 'a outcome" where
  "return x = ([], Inr x)"

definition raise :: "error \<Rightarrow> 'a outcome" where
  "raise e = ([], Inl e)"

text \<open>\<open>await\<close> of an external call: one event, then the call's outcome.\<close>

definition await :: "event \<Rightarrow> error + 'a \<Rightarrow> 'a outcome" where
  "await ev r = ([ev], r)"

text \<open>A call that is not awaited (the library's pure functions): no event.\<close>

definition pure :: "error + 'a \<Rightarrow> 'a outcome" where
  "pure r = ([], r)"

text \<open>A step of the module itself that the run records.\<close>

definition emit :: "event \<Rightarrow> unit outcome" where
  "emit ev = ([ev], Inr ())"

text \<open>Sequencing: an exception ends the run, a value goes to the rest of the body.\<close>

definition and_then :: "'a outcome \<Rightarrow> ('a \<Rightarrow> 'b outcome) \<Rightarrow> 'b outcome" where
  "and_then m f =
     (case snd m of
        Inl e \<Rightarrow> (fst m, Inl e)
      | Inr x \<Rightarrow> (fst m @ fst (f x), snd (f x)))"

text \<open>\<open>try: m except (classes): handler\<close>\<close>

definition try_except :: "'a outcome \<Rightarrow> (error \<Rightarrow> bool) \<Rightarrow> (error \<Rightarrow> 'a outcome) \<Rightarrow> 'a outcome" where
  "try_except m caught handler =
     (case snd m of
        Inr x \<Rightarrow> m
      | Inl e \<Rightarrow> if caught e then (fst m @ fst (handler e), snd (handler e)) else m)"

text \<open>\<open>xs[0]\<close> on a response, \<open>r.chats\<close>, and \<open>getattr(r, 'peer', None)\<close>.\<close>

definition first_item :: "raw_entity list \<Rightarrow> error + raw_entity" where
  "first_item xs = (case xs of [] \<Rightarrow> Inl IndexError | x # _ \<Rightarrow> Inr x)"

definition subscript0 :: "response \<Rightarrow> error + raw_entity" where
  "subscript0 r = (case r of Vector xs \<Rightarrow> first_item xs | _ \<Rightarrow> Inl TypeError)"

definition chats_attr :: "response \<Rightarrow> error + raw_entity list" where
  "chats_attr r = (case r of MessagesChats xs \<Rightarrow> Inr xs | _ \<Rightarrow> Inl AttributeError)"

definition peer_attr :: "response \<Rightarrow> peer option" where
  "peer_attr r = (case r of ResolvedPeer p \<Rightarrow> Some p | _ \<Rightarrow> None)"

section \<open>PeerResolver\<close>

definition parse_input_string :: "library \<Rightarrow> string \<Rightarrow> peer_id" where
  "parse_input_string lib peer_id =
     (case re_match_link (lower peer_id) of
        Some group1 \<Rightarrow>
          (case py_int (int_max_str_digits lib) group1 of
             Some n \<Rightarrow> PInt (get_channel_id lib n)
           | None \<Rightarrow> PStr group1)
      | None \<Rightarrow> PStr (re_sub_strip (lower peer_id)))"

definition username_query :: string where
  "username_query = ''SELECT id, access_hash, type FROM peers WHERE username = ?''"

definition resolve_cached_username :: "library \<Rightarrow> client \<Rightarrow> string \<Rightarrow> input_peer outcome" where
  "resolve_cached_username lib c username =
     try_except
       (await (CacheGetByUsername username) (get_peer_by_username c username))
       (\<lambda>e. e = AttributeError)
       (\<lambda>e.
          and_then (await (SqlExecute username_query [lower username])
                      (conn_execute c username_query [lower username])) (\<lambda>cursor.
          and_then (await SqlFetchone cursor) (\<lambda>fetched.
            case fetched of
              Some row \<Rightarrow>
                and_then (pure (parse_peer_row lib row)) (\<lambda>entity.
                  pure (get_input_peer lib entity))
            | None \<Rightarrow> raise KeyError)))"

definition resolve_username_api :: "library \<Rightarrow> client \<Rightarrow> string \<Rightarrow> input_peer outcome" where
  "resolve_username_api lib c username =
     and_then (await (Invoke (ResolveUsername username)) (invoke c (ResolveUsername username)))
       (\<lambda>result.
          case peer_attr result of
            Some (PeerUser uid) \<Rightarrow> return (InputPeerUser uid 0)
          | Some (PeerChannel cid) \<Rightarrow> return (InputPeerChannel (get_channel_id lib cid) 0)
          | _ \<Rightarrow> raise PeerIdInvalid)"

definition resolve_by_id :: "library \<Rightarrow> client \<Rightarrow> int \<Rightarrow> input_peer outcome" where
  "resolve_by_id lib c peer_id =
     and_then (pure (get_peer_type lib peer_id)) (\<lambda>peer_type.
       if peer_type = ''user'' then
         and_then (await (Invoke (GetUsers [InputUser peer_id 0]))
                     (invoke c (GetUsers [InputUser peer_id 0]))) (\<lambda>users.
         and_then (pure (subscript0 users)) (\<lambda>u.
           pure (get_input_peer lib u)))
       else if peer_type = ''chat'' then
         and_then (await (Invoke (GetChats [- peer_id]))
                     (invoke c (GetChats [- peer_id]))) (\<lambda>chats.
         and_then (pure (chats_attr chats)) (\<lambda>xs.
         and_then (pure (first_item xs)) (\<lambda>x.
           pure (get_input_peer lib x))))
       else
         and_then (await (Invoke (GetChannels [InputChannel (get_channel_id lib peer_id) 0]))
                     (invoke c (GetChannels [InputChannel (get_channel_id lib peer_id) 0]))) (\<lambda>channels.
         and_then (pure (chats_attr channels)) (\<lambda>xs.
         and_then (pure (first_item xs)) (\<lambda>x.
           pure (get_input_peer lib x)))))"

text \<open>
  \<open>resolve\<close>, in three parts. In the second and the third the identifier is a string or a
  number: \<open>None\<close> has returned before (it would be a \<open>TypeError\<close> of the library).

  The body of the \<open>try\<close> (lines 29 to 31):
\<close>

definition resolve_cached :: "library \<Rightarrow> client \<Rightarrow> peer_id \<Rightarrow> input_peer outcome" where
  "resolve_cached lib c peer_id =
     (case peer_id of
        PStr s \<Rightarrow> resolve_cached_username lib c s
      | PInt n \<Rightarrow> await (CacheGetById n) (get_peer_by_id c n)
      | PNone \<Rightarrow> raise TypeError)"

text \<open>What follows the cache block (lines 35 to 40):\<close>

definition resolve_uncached :: "library \<Rightarrow> client \<Rightarrow> peer_id \<Rightarrow> input_peer outcome" where
  "resolve_uncached lib c peer_id =
     (case peer_id of
        PStr s \<Rightarrow>
          and_then (emit (ParseInputString s)) (\<lambda>_.
            case parse_input_string lib s of
              PStr username \<Rightarrow> resolve_username_api lib c username
            | PInt n \<Rightarrow> resolve_by_id lib c n
            | PNone \<Rightarrow> raise TypeError)
      | PInt n \<Rightarrow> resolve_by_id lib c n
      | PNone \<Rightarrow> raise TypeError)"

text \<open>
  The classes of \<open>except (KeyError, AttributeError, sqlite3.OperationalError)\<close>. The handler
  logs, and the run goes on after the \<open>try\<close> statement.
\<close>

definition cache_miss :: "error \<Rightarrow> bool" where
  "cache_miss e = (e = KeyError \<or> e = AttributeError \<or> e = OperationalError)"

definition resolve :: "library \<Rightarrow> client \<Rightarrow> peer_id \<Rightarrow> bool \<Rightarrow> input_peer outcome" where
  "resolve lib c peer_id use_cache =
     (if \<not> is_connected c then raise ConnectionError
      else if peer_id = PNone \<or> peer_id = PStr ''self'' \<or> peer_id = PStr ''me'' then
        return InputPeerSelf
      else if use_cache then
        try_except (resolve_cached lib c peer_id) cache_miss
          (\<lambda>e. and_then (emit (LogDebug e)) (\<lambda>_. resolve_uncached lib c peer_id))
      else resolve_uncached lib c peer_id)"

section \<open>A library and clients to run the model on\<close>

text \<open>
  The examples below evaluate the model on this instance of the parameters:
  \<open>get_channel_id\<close> and \<open>get_peer_type\<close> as \<open>pyrogram.utils\<close> of pyrogram 2.0 defines
  them, and the default digit limit of Python 3.11. That module defines neither
  \<open>get_input_peer\<close> nor \<open>parse_peer_row\<close>, so looking either up is an \<open>AttributeError\<close>.
\<close>

definition example_library :: library where
  "example_library =
     \<lparr> int_max_str_digits = 4300,
       get_channel_id = (\<lambda>n. - 1000000000000 - n),
       get_peer_type = (\<lambda>n.
         if n < 0 then
           (if - 2147483647 \<le> n then Inr ''chat''
            else if - 1002147483647 \<le> n \<and> n < - 1000000000000 then Inr ''channel''
            else Inl ValueError)
         else if 0 < n \<and> n \<le> 999999999999 then Inr ''user''
         else Inl ValueError),
       get_input_peer = (\<lambda>_. Inl AttributeError),
       parse_peer_row = (\<lambda>_. Inl AttributeError) \<rparr>"

text \<open>
  A connected client with an empty cache. Its server knows the user \<open>durov\<close> (id 7), the
  basic group \<open>oldgroup\<close> (id 5, a \<open>PeerChat\<close>) and answers every lookup by id.
\<close>

definition example_client :: client where
  "example_client =
     \<lparr> is_connected = True,
       get_peer_by_username = (\<lambda>_. Inl KeyError),
       get_peer_by_id = (\<lambda>_. Inl KeyError),
       conn_execute = (\<lambda>_ _. Inr (Inr None)),
       invoke = (\<lambda>req.
         case req of
           ResolveUsername u \<Rightarrow>
             (if u = ''durov'' then Inr (ResolvedPeer (PeerUser 7))
              else if u = ''oldgroup'' then Inr (ResolvedPeer (PeerChat 5))
              else Inl (OtherError ''UsernameNotOccupied''))
         | GetUsers ids \<Rightarrow> Inr (Vector [User 42 99])
         | GetChats ids \<Rightarrow> Inr (MessagesChats [Chat 5])
         | GetChannels ids \<Rightarrow> Inr (MessagesChats [Channel 1234567890 77])) \<rparr>"

definition offline_client :: client where
  "offline_client = example_client \<lparr> is_connected := False \<rparr>"

section \<open>Notions used in the statements\<close>

text \<open>The access hashes of the input users and input channels that a request carries.\<close>

fun request_access_hashes :: "request \<Rightarrow> int list" where
  "request_access_hashes (ResolveUsername u) = []"
| "request_access_hashes (GetUsers ids) = map (\<lambda>x. case x of InputUser i h \<Rightarrow> h) ids"
| "request_access_hashes (GetChats ids) = []"
| "request_access_hashes (GetChannels ids) = map (\<lambda>x. case x of InputChannel i h \<Rightarrow> h) ids"

text \<open>
  The ways a link can start, in lower case: an optional scheme, then one of the four
  hosts with its slash.
\<close>

definition link_prefixes :: "string list" where
  "link_prefixes =
     [scheme @ host.
        scheme \<leftarrow> [[], ''http://'', ''https://''],
        host \<leftarrow> [''t.me/'', ''telegram.org/'', ''telegram.me/'', ''telegram.dog/'']]"

section \<open>The connection check and the identity shortcut\<close>

text \<open>
  C8. On a client that is not connected, \<open>resolve\<close> raises \<open>ConnectionError\<close> for every
  identifier and every value of \<open>use_cache\<close>, and the run has no event: no cache lookup, no
  parsing, no network call.
\<close>

theorem resolve_not_connected:
  "\<not> is_connected c \<Longrightarrow> resolve lib c peer_id use_cache = ([], Inl ConnectionError)"
  by (simp add: resolve_def raise_def)

theorem resolve_not_connected_witness:
  "\<not> is_connected offline_client \<and>
   resolve example_library offline_client (PStr ''durov'') True = ([], Inl ConnectionError)"
  using resolve_not_connected [of offline_client example_library "PStr ''durov''" True]
  by (simp add: offline_client_def)

text \<open>
  C7. On a connected client, \<open>resolve\<close> of \<open>None\<close>, \<open>"self"\<close> or \<open>"me"\<close> returns
  \<open>InputPeerSelf\<close> whatever \<open>use_cache\<close> is, and the run has no event: the shortcut comes
  before any cache lookup or network call.
\<close>

theorem resolve_self:
  "is_connected c \<Longrightarrow> peer_id \<in> {PNone, PStr ''self'', PStr ''me''} \<Longrightarrow>
   resolve lib c peer_id use_cache = ([], Inr InputPeerSelf)"
  by (auto simp add: resolve_def return_def)

theorem resolve_self_witness:
  "is_connected example_client \<and> PStr ''me'' \<in> {PNone, PStr ''self'', PStr ''me''} \<and>
   resolve example_library example_client (PStr ''me'') True = ([], Inr InputPeerSelf)"
  using resolve_self [of example_client "PStr ''me''" example_library True]
  by (simp add: example_client_def)

section \<open>The events of each coroutine\<close>

lemma fst_await: "fst (await ev r) = [ev]"
  by (simp add: await_def)

lemma fst_try_except_Cons:
  "fst m = ev # evs \<Longrightarrow> \<exists>rest. fst (try_except m caught handler) = ev # rest"
  by (cases "snd m") (simp_all add: try_except_def)

lemma fst_and_then_pure:
  "fst (and_then (pure r) f) = (case r of Inl e \<Rightarrow> [] | Inr x \<Rightarrow> fst (f x))"
  by (cases r) (simp_all add: and_then_def pure_def)

lemma fst_and_then_await_pure:
  "(\<And>x. fst (f x) = []) \<Longrightarrow> fst (and_then (await ev r) f) = [ev]"
  by (cases r) (simp_all add: and_then_def await_def)

lemma fst_pure_chain2 [simp]: "fst (and_then (pure r) (\<lambda>x. pure (g x))) = []"
  by (cases r) (simp_all add: and_then_def pure_def)

lemma fst_pure_chain3 [simp]:
  "fst (and_then (pure r) (\<lambda>x. and_then (pure (h x)) (\<lambda>y. pure (g y)))) = []"
  by (cases r) (simp_all add: and_then_def pure_def split: sum.split)

lemma resolve_cached_username_first:
  "\<exists>rest. fst (resolve_cached_username lib c s) = CacheGetByUsername s # rest"
  unfolding resolve_cached_username_def
  by (rule fst_try_except_Cons) (rule fst_await)

text \<open>\<open>_resolve_by_id\<close> sends at most one request, chosen by the peer type.\<close>

lemma resolve_by_id_trace:
  "fst (resolve_by_id lib c n) =
     (case get_peer_type lib n of
        Inl e \<Rightarrow> []
      | Inr t \<Rightarrow>
          if t = ''user'' then [Invoke (GetUsers [InputUser n 0])]
          else if t = ''chat'' then [Invoke (GetChats [- n])]
          else [Invoke (GetChannels [InputChannel (get_channel_id lib n) 0])])"
  unfolding resolve_by_id_def
  by (simp add: fst_and_then_pure fst_and_then_await_pure split: sum.split)

lemma resolve_username_api_trace:
  "fst (resolve_username_api lib c u) = [Invoke (ResolveUsername u)]"
  unfolding resolve_username_api_def
  by (rule fst_and_then_await_pure)
     (simp add: return_def raise_def split: option.split peer.split)

text \<open>Only \<open>resolve\<close> itself logs.\<close>

lemma resolve_cached_no_log: "LogDebug e \<notin> set (fst (resolve_cached lib c peer_id))"
  by (auto simp add: resolve_cached_def resolve_cached_username_def try_except_def and_then_def
      await_def pure_def raise_def split: peer_id.splits sum.splits option.splits if_splits)

lemma resolve_uncached_no_log: "LogDebug e \<notin> set (fst (resolve_uncached lib c peer_id))"
  by (auto simp add: resolve_uncached_def and_then_def emit_def raise_def
      resolve_by_id_trace resolve_username_api_trace
      split: peer_id.splits sum.splits if_splits)

section \<open>The cache tier\<close>

text \<open>
  C9. On a connected client, with \<open>use_cache\<close> true and an identifier other than \<open>None\<close>,
  \<open>"self"\<close> and \<open>"me"\<close>, the first event of \<open>resolve\<close> is the cache lookup, keyed by the
  identifier as it was passed: \<open>get_peer_by_username\<close> for a string, \<open>get_peer_by_id\<close> for
  a number. The call of the parser and every network call are later events.
\<close>

theorem resolve_cache_first:
  assumes "is_connected c"
    and "peer_id \<noteq> PNone" and "peer_id \<noteq> PStr ''self''" and "peer_id \<noteq> PStr ''me''"
  shows "(\<forall>s. peer_id = PStr s \<longrightarrow>
            (\<exists>rest. fst (resolve lib c peer_id True) = CacheGetByUsername s # rest)) \<and>
         (\<forall>n. peer_id = PInt n \<longrightarrow>
            (\<exists>rest. fst (resolve lib c peer_id True) = CacheGetById n # rest))"
proof (intro conjI allI impI)
  fix s assume s: "peer_id = PStr s"
  obtain rest where "fst (resolve_cached lib c peer_id) = CacheGetByUsername s # rest"
    using resolve_cached_username_first [of lib c s] by (auto simp add: resolve_cached_def s)
  then show "\<exists>rest. fst (resolve lib c peer_id True) = CacheGetByUsername s # rest"
    using assms by (simp add: resolve_def fst_try_except_Cons)
next
  fix n assume n: "peer_id = PInt n"
  have "fst (resolve_cached lib c peer_id) = CacheGetById n # []"
    by (simp add: resolve_cached_def n await_def)
  then show "\<exists>rest. fst (resolve lib c peer_id True) = CacheGetById n # rest"
    using assms by (simp add: resolve_def fst_try_except_Cons)
qed

theorem resolve_cache_first_witness:
  "is_connected example_client \<and> PStr ''Durov'' \<noteq> PNone \<and> PStr ''Durov'' \<noteq> PStr ''self'' \<and>
   PStr ''Durov'' \<noteq> PStr ''me'' \<and>
   fst (resolve example_library example_client (PStr ''Durov'') True) =
     [CacheGetByUsername ''Durov'', LogDebug KeyError, ParseInputString ''Durov'',
      Invoke (ResolveUsername ''durov'')]"
proof -
  have ev: "fst (resolve example_library example_client (PStr ''Durov'') True) =
     [CacheGetByUsername ''Durov'', LogDebug KeyError, ParseInputString ''Durov'',
      Invoke (ResolveUsername ''durov'')]"
    by code_simp
  have c: "is_connected example_client"
    by (simp add: example_client_def)
  show ?thesis
    using resolve_cache_first [of example_client "PStr ''Durov''" example_library] ev c
    by simp
qed

text \<open>
  C4. On a connected client, with \<open>use_cache\<close> true, when the cache lookup raises
  \<open>KeyError\<close>, \<open>AttributeError\<close> or \<open>sqlite3.OperationalError\<close>, \<open>resolve\<close> logs the miss and
  goes on with the remaining tiers: its events are those of the lookup, the log record and
  those of the run without cache, and its outcome is the outcome of the run without cache.
  The error of the lookup is not the caller's.
\<close>

theorem resolve_cache_miss:
  assumes "is_connected c"
    and "peer_id \<noteq> PNone" and "peer_id \<noteq> PStr ''self''" and "peer_id \<noteq> PStr ''me''"
    and "snd (resolve_cached lib c peer_id) = Inl e"
    and "e = KeyError \<or> e = AttributeError \<or> e = OperationalError"
  shows "resolve lib c peer_id True =
           (fst (resolve_cached lib c peer_id) @ LogDebug e # fst (resolve lib c peer_id False),
            snd (resolve lib c peer_id False))"
  using assms by (simp add: resolve_def try_except_def and_then_def emit_def cache_miss_def)

theorem resolve_cache_miss_witness:
  "is_connected example_client \<and> PStr ''durov'' \<noteq> PNone \<and> PStr ''durov'' \<noteq> PStr ''self'' \<and>
   PStr ''durov'' \<noteq> PStr ''me'' \<and>
   resolve_cached example_library example_client (PStr ''durov'') =
     ([CacheGetByUsername ''durov''], Inl KeyError) \<and>
   resolve example_library example_client (PStr ''durov'') False =
     ([ParseInputString ''durov'', Invoke (ResolveUsername ''durov'')],
      Inr (InputPeerUser 7 0)) \<and>
   resolve example_library example_client (PStr ''durov'') True =
     ([CacheGetByUsername ''durov'', LogDebug KeyError, ParseInputString ''durov'',
       Invoke (ResolveUsername ''durov'')],
      Inr (InputPeerUser 7 0))"
proof -
  have c: "is_connected example_client"
    by (simp add: example_client_def)
  have m: "resolve_cached example_library example_client (PStr ''durov'') =
      ([CacheGetByUsername ''durov''], Inl KeyError)"
    by code_simp
  have u: "resolve example_library example_client (PStr ''durov'') False =
      ([ParseInputString ''durov'', Invoke (ResolveUsername ''durov'')],
       Inr (InputPeerUser 7 0))"
    by code_simp
  show ?thesis
    using resolve_cache_miss [of example_client "PStr ''durov''" example_library KeyError] c m u
    by simp
qed

section \<open>The network tiers\<close>

text \<open>
  C6. When the library classifies a numeric identifier as a channel (it is in the channel
  id range), \<open>_resolve_by_id\<close> sends exactly one request, \<open>channels.GetChannels\<close> with the
  channel's input reference: neither \<open>users.GetUsers\<close> nor \<open>messages.GetChats\<close> is sent.
\<close>

theorem resolve_by_id_channel:
  "get_peer_type lib n = Inr ''channel'' \<Longrightarrow>
   fst (resolve_by_id lib c n) = [Invoke (GetChannels [InputChannel (get_channel_id lib n) 0])]"
  by (simp add: resolve_by_id_trace)

theorem resolve_by_id_channel_witness:
  "get_peer_type example_library (- 1001234567890) = Inr ''channel'' \<and>
   fst (resolve_by_id example_library example_client (- 1001234567890)) =
     [Invoke (GetChannels [InputChannel 1234567890 0])]"
proof -
  have t: "get_peer_type example_library (- 1001234567890) = Inr ''channel''"
    by (simp add: example_library_def)
  have g: "get_channel_id example_library (- 1001234567890) = 1234567890"
    by (simp add: example_library_def)
  show ?thesis
    using resolve_by_id_channel [of example_library "- 1001234567890" example_client] t g
    by simp
qed

text \<open>
  C10. Every request that \<open>_resolve_by_id\<close> sends carries only access hashes equal to 0
  (\<open>GetChats\<close> carries none), and every value that \<open>_resolve_username_api\<close> returns is an
  \<open>InputPeerUser\<close> or an \<open>InputPeerChannel\<close> with access hash 0.
\<close>

theorem network_access_hash_zero:
  "(\<forall>req. Invoke req \<in> set (fst (resolve_by_id lib c n)) \<longrightarrow>
      (\<forall>h \<in> set (request_access_hashes req). h = 0)) \<and>
   (\<forall>p. snd (resolve_username_api lib c u) = Inr p \<longrightarrow>
      (\<exists>i. p = InputPeerUser i 0 \<or> p = InputPeerChannel i 0))"
proof (intro conjI allI impI)
  fix req assume "Invoke req \<in> set (fst (resolve_by_id lib c n))"
  then show "\<forall>h \<in> set (request_access_hashes req). h = 0"
    by (auto simp add: resolve_by_id_trace split: sum.splits if_splits)
next
  fix p assume "snd (resolve_username_api lib c u) = Inr p"
  then show "\<exists>i. p = InputPeerUser i 0 \<or> p = InputPeerChannel i 0"
    by (auto simp add: resolve_username_api_def and_then_def await_def return_def raise_def
        split: sum.splits option.splits peer.splits)
qed

theorem network_access_hash_zero_witness:
  "fst (resolve_by_id example_library example_client 42) = [Invoke (GetUsers [InputUser 42 0])] \<and>
   request_access_hashes (GetUsers [InputUser 42 0]) = [0] \<and>
   snd (resolve_username_api example_library example_client ''durov'') = Inr (InputPeerUser 7 0)"
proof -
  have t: "fst (resolve_by_id example_library example_client 42) =
      [Invoke (GetUsers [InputUser 42 0])]"
    by code_simp
  have p: "snd (resolve_username_api example_library example_client ''durov'') =
      Inr (InputPeerUser 7 0)"
    by code_simp
  show ?thesis
    using network_access_hash_zero [of example_library example_client 42 "''durov''"] t p
    by simp
qed

text \<open>
  C3. When the response to \<open>ResolveUsername\<close> has a peer that is neither a \<open>PeerUser\<close> nor a
  \<open>PeerChannel\<close> (or no peer), \<open>_resolve_username_api\<close> raises \<open>PeerIdInvalid\<close>, and so does
  every run of \<open>resolve\<close> that reaches it: a connected client, a string other than
  \<open>"self"\<close> and \<open>"me"\<close> that parses to that username, and the cache off or missed.
\<close>

theorem resolve_username_api_invalid_peer:
  assumes "invoke c (ResolveUsername username) = Inr result"
    and "\<forall>uid. peer_attr result \<noteq> Some (PeerUser uid)"
    and "\<forall>cid. peer_attr result \<noteq> Some (PeerChannel cid)"
  shows "resolve_username_api lib c username =
           ([Invoke (ResolveUsername username)], Inl PeerIdInvalid) \<and>
         (\<forall>s use_cache.
            is_connected c \<and> s \<noteq> ''self'' \<and> s \<noteq> ''me'' \<and>
            parse_input_string lib s = PStr username \<and>
            (use_cache \<longrightarrow> (\<exists>e. snd (resolve_cached lib c (PStr s)) = Inl e \<and> cache_miss e)) \<longrightarrow>
            snd (resolve lib c (PStr s) use_cache) = Inl PeerIdInvalid)"
proof -
  have api: "resolve_username_api lib c username =
      ([Invoke (ResolveUsername username)], Inl PeerIdInvalid)"
    using assms
    by (auto simp add: resolve_username_api_def and_then_def await_def return_def raise_def
        split: option.splits peer.splits)
  have unc: "snd (resolve_uncached lib c (PStr s)) = Inl PeerIdInvalid"
    if "parse_input_string lib s = PStr username" for s
    using that api by (simp add: resolve_uncached_def and_then_def emit_def)
  show ?thesis
    using api unc
    by (auto simp add: resolve_def try_except_def and_then_def emit_def)
qed

theorem resolve_username_api_invalid_peer_witness:
  "invoke example_client (ResolveUsername ''oldgroup'') = Inr (ResolvedPeer (PeerChat 5)) \<and>
   peer_attr (ResolvedPeer (PeerChat 5)) = Some (PeerChat 5) \<and>
   is_connected example_client \<and>
   parse_input_string example_library ''@OldGroup'' = PStr ''oldgroup'' \<and>
   snd (resolve_cached example_library example_client (PStr ''@OldGroup'')) = Inl KeyError \<and>
   resolve_username_api example_library example_client ''oldgroup'' =
     ([Invoke (ResolveUsername ''oldgroup'')], Inl PeerIdInvalid) \<and>
   snd (resolve example_library example_client (PStr ''@OldGroup'') True) = Inl PeerIdInvalid"
proof -
  have i: "invoke example_client (ResolveUsername ''oldgroup'') = Inr (ResolvedPeer (PeerChat 5))"
    by code_simp
  have a: "peer_attr (ResolvedPeer (PeerChat 5)) = Some (PeerChat 5)"
    by (simp add: peer_attr_def)
  have c: "is_connected example_client"
    by (simp add: example_client_def)
  have p: "parse_input_string example_library ''@OldGroup'' = PStr ''oldgroup''"
    by code_simp
  have m: "snd (resolve_cached example_library example_client (PStr ''@OldGroup'')) = Inl KeyError"
    by code_simp
  have n: "''@OldGroup'' \<noteq> ''self'' \<and> ''@OldGroup'' \<noteq> ''me''"
    by simp
  show ?thesis
    using resolve_username_api_invalid_peer [of example_client "''oldgroup''"
        "ResolvedPeer (PeerChat 5)" example_library] i a c p m n
    by (auto simp add: cache_miss_def)
qed

text \<open>
  C2, as stated, fails: on the example client the server answers \<open>oldgroup\<close> with a
  \<open>PeerChat\<close>; \<open>_resolve_username_api\<close> raises \<open>PeerIdInvalid\<close>, and \<open>resolve\<close> ends with that
  error. The only log record of the run is the one of the cache miss, and no tier runs
  after the failed one.
\<close>

theorem resolve_invalid_peer_propagates:
  "resolve_username_api example_library example_client ''oldgroup'' =
     ([Invoke (ResolveUsername ''oldgroup'')], Inl PeerIdInvalid) \<and>
   resolve example_library example_client (PStr ''oldgroup'') True =
     ([CacheGetByUsername ''oldgroup'', LogDebug KeyError, ParseInputString ''oldgroup'',
       Invoke (ResolveUsername ''oldgroup'')], Inl PeerIdInvalid)"
  by code_simp

text \<open>
  C2, amended. On a connected client and an identifier other than \<open>None\<close>, \<open>"self"\<close> and
  \<open>"me"\<close>: a cache miss (\<open>KeyError\<close>, \<open>AttributeError\<close>, \<open>sqlite3.OperationalError\<close> from the
  cache tier) is logged and superseded by the tiers after the cache, whose outcome is the
  outcome of \<open>resolve\<close>; a \<open>PeerIdInvalid\<close> of those tiers is not logged and is the outcome
  of \<open>resolve\<close>, whenever the run reaches them (cache off, or missed).
\<close>

theorem resolve_supersedes_cache_miss_only:
  assumes "is_connected c"
    and "peer_id \<noteq> PNone" and "peer_id \<noteq> PStr ''self''" and "peer_id \<noteq> PStr ''me''"
  shows "(\<forall>e. snd (resolve_cached lib c peer_id) = Inl e \<and> cache_miss e \<longrightarrow>
            LogDebug e \<in> set (fst (resolve lib c peer_id True)) \<and>
            snd (resolve lib c peer_id True) = snd (resolve_uncached lib c peer_id)) \<and>
         (\<forall>use_cache.
            snd (resolve_uncached lib c peer_id) = Inl PeerIdInvalid \<and>
            (use_cache \<longrightarrow> (\<exists>e. snd (resolve_cached lib c peer_id) = Inl e \<and> cache_miss e)) \<longrightarrow>
            snd (resolve lib c peer_id use_cache) = Inl PeerIdInvalid \<and>
            LogDebug PeerIdInvalid \<notin> set (fst (resolve lib c peer_id use_cache)))"
proof -
  have miss: "LogDebug e \<in> set (fst (resolve lib c peer_id True)) \<and>
      snd (resolve lib c peer_id True) = snd (resolve_uncached lib c peer_id)"
    if "snd (resolve_cached lib c peer_id) = Inl e \<and> cache_miss e" for e
    using assms that by (simp add: resolve_def try_except_def and_then_def emit_def)
  have net: "snd (resolve lib c peer_id use_cache) = Inl PeerIdInvalid \<and>
      LogDebug PeerIdInvalid \<notin> set (fst (resolve lib c peer_id use_cache))"
    if h: "snd (resolve_uncached lib c peer_id) = Inl PeerIdInvalid \<and>
      (use_cache \<longrightarrow> (\<exists>e. snd (resolve_cached lib c peer_id) = Inl e \<and> cache_miss e))"
    for use_cache
    using assms h resolve_cached_no_log [of PeerIdInvalid lib c peer_id]
      resolve_uncached_no_log [of PeerIdInvalid lib c peer_id]
    by (auto simp add: resolve_def try_except_def and_then_def emit_def cache_miss_def)
  show ?thesis
    using miss net by blast
qed

theorem resolve_supersedes_cache_miss_only_witness:
  "is_connected example_client \<and> PStr ''oldgroup'' \<noteq> PNone \<and>
   PStr ''oldgroup'' \<noteq> PStr ''self'' \<and> PStr ''oldgroup'' \<noteq> PStr ''me'' \<and>
   snd (resolve_cached example_library example_client (PStr ''oldgroup'')) = Inl KeyError \<and>
   cache_miss KeyError \<and>
   snd (resolve_uncached example_library example_client (PStr ''oldgroup'')) = Inl PeerIdInvalid \<and>
   LogDebug KeyError \<in> set (fst (resolve example_library example_client (PStr ''oldgroup'') True)) \<and>
   snd (resolve example_library example_client (PStr ''oldgroup'') True) = Inl PeerIdInvalid \<and>
   LogDebug PeerIdInvalid \<notin>
     set (fst (resolve example_library example_client (PStr ''oldgroup'') True))"
proof -
  have c: "is_connected example_client"
    by (simp add: example_client_def)
  have m: "snd (resolve_cached example_library example_client (PStr ''oldgroup'')) = Inl KeyError"
    by code_simp
  have k: "cache_miss KeyError"
    by (simp add: cache_miss_def)
  have u: "snd (resolve_uncached example_library example_client (PStr ''oldgroup'')) =
      Inl PeerIdInvalid"
    by code_simp
  show ?thesis
    using resolve_supersedes_cache_miss_only [of example_client "PStr ''oldgroup''"
        example_library] c m k u
    by auto
qed

section \<open>The parser\<close>

lemma ord_eq_iff: "ord c = ord d \<longleftrightarrow> c = d"
  by (simp add: ord_def)

lemma ord_lower_char: "ord (lower_char c) = (if is_upper c then ord c + 32 else ord c)"
  by (auto simp add: lower_char_def is_upper_def ord_def)

lemma ord_consts:
  "ord CHR ''/'' = 47" "ord CHR ''@'' = 64" "ord CHR ''+'' = 43" "ord CHR ''_'' = 95"
  "ord CHR ''c'' = 99"
  by (simp_all add: ord_def)

lemma lower_char_idem: "lower_char (lower_char c) = lower_char c"
  by (auto simp add: ord_eq_iff [symmetric] ord_lower_char is_upper_def)

lemma lower_char_eq_slash: "lower_char c = CHR ''/'' \<longleftrightarrow> c = CHR ''/''"
  by (auto simp add: ord_eq_iff [symmetric] ord_lower_char is_upper_def ord_consts)

lemma strip_prefix_Some: "strip_prefix p s = Some r \<Longrightarrow> s = p @ r"
  by (induction p s rule: strip_prefix.induct) (auto split: if_splits)

lemma strip_prefix_append: "strip_prefix p (p @ r) = Some r"
  by (induction p) auto

lemma or_else_Some: "or_else a b = Some g \<Longrightarrow> a = Some g \<or> b = Some g"
  by (cases a) (simp_all add: or_else_def)

lemma bind_strip_prefix_slash:
  assumes "Option.bind (strip_prefix p s) f = Some g"
    and "\<And>r. f r = Some g \<Longrightarrow> CHR ''/'' \<in> set p \<or> CHR ''/'' \<in> set r"
  shows "CHR ''/'' \<in> set s"
proof -
  obtain r where r: "strip_prefix p s = Some r" and f: "f r = Some g"
    using assms(1) by (auto simp add: Option.bind_eq_Some_conv)
  have "s = p @ r"
    using r by (rule strip_prefix_Some)
  then show ?thesis
    using assms(2) [OF f] by auto
qed

lemma re_slash_Some: "re_slash s = Some g \<Longrightarrow> CHR ''/'' \<in> set s"
  unfolding re_slash_def by (erule bind_strip_prefix_slash) simp

lemma re_host_Some:
  assumes "re_host s = Some g"
  shows "CHR ''/'' \<in> set s"
proof -
  let ?tld = "\<lambda>r. or_else (Option.bind (strip_prefix ''org'' r) re_slash)
            (or_else (Option.bind (strip_prefix ''me'' r) re_slash)
               (Option.bind (strip_prefix ''dog'' r) re_slash))"
  have tld: "CHR ''/'' \<in> set r" if "?tld r = Some g" for r
  proof -
    from that consider
      "Option.bind (strip_prefix ''org'' r) re_slash = Some g" |
      "Option.bind (strip_prefix ''me'' r) re_slash = Some g" |
      "Option.bind (strip_prefix ''dog'' r) re_slash = Some g"
      by (blast dest: or_else_Some)
    then show ?thesis
      by cases (erule bind_strip_prefix_slash, simp add: re_slash_Some)+
  qed
  from assms consider
    "Option.bind (strip_prefix ''t.me/'' s) re_opt_c = Some g" |
    "Option.bind (strip_prefix ''telegram.'' s) ?tld = Some g"
    unfolding re_host_def by (blast dest: or_else_Some)
  then show ?thesis
  proof cases
    case 1
    then show ?thesis by (rule bind_strip_prefix_slash) simp
  next
    case 2
    then show ?thesis by (rule bind_strip_prefix_slash) (simp add: tld)
  qed
qed

lemma re_scheme_Some:
  assumes "re_scheme s = Some g"
  shows "CHR ''/'' \<in> set s"
proof -
  let ?rest = "\<lambda>r. or_else
      (Option.bind (strip_prefix ''s'' r) (\<lambda>r'. Option.bind (strip_prefix ''://'' r') re_host))
      (Option.bind (strip_prefix ''://'' r) re_host)"
  have colon: "CHR ''/'' \<in> set r" if "Option.bind (strip_prefix ''://'' r) re_host = Some g" for r
    using that by (rule bind_strip_prefix_slash) simp
  have rest: "CHR ''/'' \<in> set r" if "?rest r = Some g" for r
  proof -
    from that consider
      "Option.bind (strip_prefix ''s'' r) (\<lambda>r'. Option.bind (strip_prefix ''://'' r') re_host) = Some g" |
      "Option.bind (strip_prefix ''://'' r) re_host = Some g"
      by (blast dest: or_else_Some)
    then show ?thesis
    proof cases
      case 1
      then show ?thesis by (rule bind_strip_prefix_slash) (simp add: colon)
    next
      case 2
      then show ?thesis by (rule colon)
    qed
  qed
  from assms have "Option.bind (strip_prefix ''http'' s) ?rest = Some g"
    by (simp add: re_scheme_def)
  then show ?thesis
    by (rule bind_strip_prefix_slash) (simp add: rest)
qed

lemma re_match_link_Some: "re_match_link s = Some g \<Longrightarrow> CHR ''/'' \<in> set s"
  unfolding re_match_link_def
  by (blast dest: or_else_Some re_scheme_Some re_host_Some)

lemma re_match_link_no_slash: "CHR ''/'' \<notin> set s \<Longrightarrow> re_match_link s = None"
  using re_match_link_Some [of s] by (cases "re_match_link s") auto

text \<open>Group 1 of a match is a run of word characters: the strings that \<open>int\<close> is applied to.\<close>

lemma bind_strip_prefixE:
  assumes "Option.bind (strip_prefix p s) f = Some g"
  obtains r where "f r = Some g"
  using assms by (auto simp add: Option.bind_eq_Some_conv)

lemma re_group1_word: "re_group1 s = Some g \<Longrightarrow> \<forall>ch \<in> set g. re_word ch"
  by (auto simp add: re_group1_def split: list.splits dest: set_takeWhileD)

lemma re_opt_c_word: "re_opt_c s = Some g \<Longrightarrow> \<forall>ch \<in> set g. re_word ch"
  unfolding re_opt_c_def
  by (blast dest: or_else_Some re_group1_word elim: bind_strip_prefixE)

lemma re_slash_word: "re_slash s = Some g \<Longrightarrow> \<forall>ch \<in> set g. re_word ch"
  unfolding re_slash_def
  by (blast dest: re_opt_c_word elim: bind_strip_prefixE)

lemma re_host_word: "re_host s = Some g \<Longrightarrow> \<forall>ch \<in> set g. re_word ch"
  unfolding re_host_def
  by (blast dest: or_else_Some re_opt_c_word re_slash_word elim: bind_strip_prefixE)

lemma re_scheme_word: "re_scheme s = Some g \<Longrightarrow> \<forall>ch \<in> set g. re_word ch"
  unfolding re_scheme_def
  by (blast dest: or_else_Some re_host_word elim: bind_strip_prefixE)

lemma re_match_link_word: "re_match_link s = Some g \<Longrightarrow> \<forall>ch \<in> set g. re_word ch"
  unfolding re_match_link_def
  by (blast dest: or_else_Some re_scheme_word re_host_word)

lemma slash_lower: "CHR ''/'' \<in> set (lower s) \<longleftrightarrow> CHR ''/'' \<in> set s"
  by (induction s) (auto simp add: lower_def lower_char_eq_slash eq_commute [of "CHR ''/''"])

lemma lower_re_sub_strip: "lower (re_sub_strip (lower s)) = re_sub_strip (lower s)"
  by (induction s) (simp_all add: lower_def re_sub_strip_def lower_char_idem)

lemma re_sub_strip_idem: "re_sub_strip (re_sub_strip s) = re_sub_strip s"
  by (simp add: re_sub_strip_def)

text \<open>
  C5. On a string without a slash (every username is one, with or without its leading
  \<open>@\<close>, in any case) the parser strips \<open>@\<close>, \<open>+\<close> and white space and lowercases, and
  it returns its own output unchanged when applied to it.
\<close>

theorem parse_input_string_idempotent:
  assumes "CHR ''/'' \<notin> set s"
  shows "parse_input_string lib s = PStr (re_sub_strip (lower s)) \<and>
         parse_input_string lib (re_sub_strip (lower s)) = PStr (re_sub_strip (lower s))"
proof -
  let ?t = "re_sub_strip (lower s)"
  have s: "re_match_link (lower s) = None"
    using assms by (simp add: re_match_link_no_slash slash_lower)
  have "CHR ''/'' \<notin> set ?t"
    using assms by (simp add: re_sub_strip_def slash_lower)
  then have t: "re_match_link (lower ?t) = None"
    by (simp add: re_match_link_no_slash slash_lower)
  show ?thesis
    using s t by (simp add: parse_input_string_def lower_re_sub_strip re_sub_strip_idem)
qed

theorem parse_input_string_idempotent_witness:
  "CHR ''/'' \<notin> set ''@Durov'' \<and>
   parse_input_string example_library ''@Durov'' = PStr ''durov'' \<and>
   parse_input_string example_library ''durov'' = PStr ''durov''"
proof -
  have v: "re_sub_strip (lower ''@Durov'') = ''durov''"
    by code_simp
  show ?thesis
    using parse_input_string_idempotent [of "''@Durov''" example_library] v
    by simp
qed


lemma or_else_None [simp]: "or_else a None = a" "or_else None b = b"
  by (cases a) (simp_all add: or_else_def)

lemma or_else_Some_left [simp]: "or_else (Some x) b = Some x"
  by (simp add: or_else_def)

lemma re_host_prefix:
  "re_host (''t.me/'' @ x) = re_opt_c x"
  "re_host (''telegram.org/'' @ x) = re_opt_c x"
  "re_host (''telegram.me/'' @ x) = re_opt_c x"
  "re_host (''telegram.dog/'' @ x) = re_opt_c x"
  by (simp_all add: re_host_def re_slash_def)

lemma re_host_not_t: "re_host (CHR ''h'' # x) = None"
  by (simp add: re_host_def)

lemma re_scheme_prefix:
  "re_scheme (''http://'' @ x) = re_host x"
  "re_scheme (''https://'' @ x) = re_host x"
  "re_scheme (CHR ''t'' # x) = None"
  by (simp_all add: re_scheme_def)

lemma re_match_link_prefix:
  assumes "q \<in> set link_prefixes"
  shows "re_match_link (q @ x) = re_opt_c x"
proof -
  have host: "re_match_link (h @ x) = re_opt_c x \<and>
      re_match_link (''http://'' @ h @ x) = re_opt_c x \<and>
      re_match_link (''https://'' @ h @ x) = re_opt_c x"
    if "re_host (h @ x) = re_opt_c x" and "\<exists>t. h = CHR ''t'' # t" for h
    using that re_scheme_prefix(1) [of "h @ x"] re_scheme_prefix(2) [of "h @ x"]
    by (auto simp add: re_match_link_def re_scheme_prefix(3) re_host_not_t)
  show ?thesis
    using assms host [of "''t.me/''"] host [of "''telegram.org/''"]
      host [of "''telegram.me/''"] host [of "''telegram.dog/''"] re_host_prefix [of x]
    by (auto simp add: link_prefixes_def)
qed

lemma takeWhile_run:
  "\<forall>ch \<in> set w. P ch \<Longrightarrow> r = [] \<or> \<not> P (hd r) \<Longrightarrow> takeWhile P (w @ r) = w"
  by (cases r) (auto simp add: takeWhile_append2)

lemma re_group1_run:
  assumes "w \<noteq> []" and "\<forall>ch \<in> set w. re_word ch" and "r = [] \<or> \<not> re_word (hd r)"
  shows "re_group1 (w @ r) = Some w"
proof -
  have "takeWhile re_word (w @ r) = w"
    using assms(2,3) by (rule takeWhile_run)
  then have "re_group1 (w @ r) = (case w of [] \<Rightarrow> None | c # cs \<Rightarrow> Some (c # cs))"
    by (simp only: re_group1_def)
  then show ?thesis
    using assms(1) by (cases w) simp_all
qed

lemma re_group1_not_word: "r = [] \<or> \<not> re_word (hd r) \<Longrightarrow> re_group1 r = None"
  by (cases r) (auto simp add: re_group1_def)

lemma re_opt_c_with_c:
  assumes "w \<noteq> []" and "\<forall>ch \<in> set w. re_word ch" and "r = [] \<or> \<not> re_word (hd r)"
  shows "re_opt_c (''c/'' @ w @ r) = Some w"
proof -
  have "strip_prefix ''c/'' (''c/'' @ w @ r) = Some (w @ r)"
    by (rule strip_prefix_append)
  then show ?thesis
    using re_group1_run [OF assms] by (simp only: re_opt_c_def Option.bind.simps or_else_Some_left)
qed

lemma not_word_slash: "\<not> re_word CHR ''/''"
  by (simp add: re_word_def ord_consts)

lemma re_opt_c_without_c:
  assumes "w \<noteq> []" and "\<forall>ch \<in> set w. re_word ch" and "r = [] \<or> \<not> re_word (hd r)"
    and "w = ''c'' \<longrightarrow> (\<forall>x xs. r = CHR ''/'' # x # xs \<longrightarrow> \<not> re_word x)"
  shows "re_opt_c (w @ r) = Some w"
proof (cases "strip_prefix ''c/'' (w @ r)")
  case None
  then show ?thesis
    using re_group1_run [OF assms(1,2,3)] by (simp add: re_opt_c_def)
next
  case (Some rest)
  then have eq: "w @ r = ''c/'' @ rest"
    by (rule strip_prefix_Some)
  obtain a u where w: "w = a # u"
    using assms(1) by (cases w) auto
  have a: "a = CHR ''c''"
    using eq w by simp
  have "u = []"
  proof (cases u)
    case Nil
    then show ?thesis .
  next
    case (Cons b v)
    then have "b = CHR ''/''"
      using eq w by simp
    then show ?thesis
      using assms(2) w Cons not_word_slash by simp
  qed
  then have wc: "w = ''c''" and r: "r = CHR ''/'' # rest"
    using eq w a by simp_all
  have "rest = [] \<or> \<not> re_word (hd rest)"
    using assms(4) wc r by (cases rest) auto
  then have "re_group1 rest = None"
    by (rule re_group1_not_word)
  then show ?thesis
    using Some re_group1_run [OF assms(1,2,3)] by (simp add: re_opt_c_def)
qed

text \<open>
  C1, as stated, fails. The path segment of \<open>https://t.me/Durov\<close> is \<open>Durov\<close>, and the
  parser returns \<open>durov\<close>: it matches on the lowercased link. The path segment of
  \<open>https://t.me/123456\<close> is \<open>123456\<close>, and the parser returns a number, the channel id
  that the library computes from 123456.
\<close>

theorem parse_input_string_not_path_segment:
  "parse_input_string example_library ''https://t.me/Durov'' = PStr ''durov'' \<and>
   PStr ''durov'' \<noteq> PStr ''Durov'' \<and>
   parse_input_string example_library ''https://t.me/123456'' = PInt (- 1000000123456) \<and>
   PInt (- 1000000123456) \<noteq> PStr ''123456''"
proof -
  have a: "parse_input_string example_library ''https://t.me/Durov'' = PStr ''durov''"
    by code_simp
  have b: "parse_input_string example_library ''https://t.me/123456'' = PInt (- 1000000123456)"
    by code_simp
  show ?thesis
    using a b by simp
qed

text \<open>
  C1, amended. The pattern is matched against the lowercased link. When the lowercased link
  is an optional \<open>http://\<close> or \<open>https://\<close>, one of the hosts \<open>t.me\<close>, \<open>telegram.org\<close>,
  \<open>telegram.me\<close>, \<open>telegram.dog\<close>, a slash, an optional \<open>c/\<close>, a non-empty run \<open>w\<close> of word
  characters and a rest that does not continue the run (when there is no \<open>c/\<close> and \<open>w\<close> is
  \<open>c\<close>, the rest is not a slash followed by a word character: that is the link with
  \<open>c/\<close>), the parser returns the library's \<open>get_channel_id\<close> of \<open>int(w)\<close> when \<open>w\<close> is
  a decimal number, and \<open>w\<close> when \<open>int\<close> raises \<open>ValueError\<close> on it. The identifier is
  the path segment of the lowercased link, not of the link, and a number for a numeric
  segment. The links are those of the model: code points below 256.
\<close>

theorem parse_input_string_link:
  assumes "lower link = q @ cp @ w @ r"
    and "q \<in> set link_prefixes"
    and "cp = [] \<or> cp = ''c/''"
    and "w \<noteq> []" and "\<forall>ch \<in> set w. re_word ch"
    and "r = [] \<or> \<not> re_word (hd r)"
    and "cp = [] \<and> w = ''c'' \<longrightarrow> (\<forall>x xs. r = CHR ''/'' # x # xs \<longrightarrow> \<not> re_word x)"
  shows "parse_input_string lib link =
           (case py_int (int_max_str_digits lib) w of
              Some n \<Rightarrow> PInt (get_channel_id lib n)
            | None \<Rightarrow> PStr w)"
proof -
  have "re_opt_c (cp @ w @ r) = Some w"
  proof (cases "cp = []")
    case True
    then show ?thesis
      using re_opt_c_without_c [OF assms(4,5,6)] assms(7) by simp
  next
    case False
    then have "cp = ''c/''"
      using assms(3) by simp
    then show ?thesis
      using re_opt_c_with_c [OF assms(4,5,6)] by simp
  qed
  then have "re_match_link (lower link) = Some w"
    using re_match_link_prefix [OF assms(2)] by (simp add: assms(1))
  then show ?thesis
    by (simp add: parse_input_string_def)
qed

theorem parse_input_string_link_witness:
  "lower ''HTTPS://T.me/C/1234567890/5'' = ''https://t.me/'' @ ''c/'' @ ''1234567890'' @ ''/5'' \<and>
   ''https://t.me/'' \<in> set link_prefixes \<and>
   ''1234567890'' \<noteq> [] \<and> list_all re_word ''1234567890'' \<and> \<not> re_word (hd ''/5'') \<and>
   ''c/'' \<noteq> [] \<and>
   py_int (int_max_str_digits example_library) ''1234567890'' = Some 1234567890 \<and>
   get_channel_id example_library 1234567890 = - 1001234567890 \<and>
   parse_input_string example_library ''HTTPS://T.me/C/1234567890/5'' = PInt (- 1001234567890)"
proof -
  have l: "lower ''HTTPS://T.me/C/1234567890/5'' =
      ''https://t.me/'' @ ''c/'' @ ''1234567890'' @ ''/5''"
    by code_simp
  have p: "''https://t.me/'' \<in> set link_prefixes"
    by code_simp
  have w: "list_all re_word ''1234567890''"
    by code_simp
  have r: "\<not> re_word (hd ''/5'')"
    by code_simp
  have i: "py_int (int_max_str_digits example_library) ''1234567890'' = Some 1234567890"
    by code_simp
  have g: "get_channel_id example_library 1234567890 = - 1001234567890"
    by (simp add: example_library_def)
  have w': "\<forall>ch \<in> set ''1234567890''. re_word ch"
    using w by (simp only: list_all_iff)
  show ?thesis
    using parse_input_string_link [of "''HTTPS://T.me/C/1234567890/5''" "''https://t.me/''"
        "''c/''" "''1234567890''" "''/5''" example_library, OF l p _ _ w'] l p w r i g
    by simp
qed

end
